theory Spec2Isabelle
  imports Complex_Main
begin

section \<open>Anesthesia gas safety and clinical monitor (Project/app.py)\<close>

text \<open>
  The two evaluation functions of \<^verbatim>\<open>app.py\<close>, \<^verbatim>\<open>analyze_gas_mixer\<close> and
  \<^verbatim>\<open>clinical_adjustment\<close>, and the lines of \<^verbatim>\<open>main\<close> that call them and merge the
  warnings.

  Conventions of the embedding:
  \<^item> a Python \<^verbatim>\<open>float\<close> is a \<^typ>\<open>real\<close>: arithmetic is exact, there is no NaN, no
    infinity and no negative zero; the comparisons and branches are those of the source;
  \<^item> the patient values, which \<^verbatim>\<open>main\<close> reads from integer widgets, are \<^typ>\<open>int\<close>;
  \<^item> a Python \<^verbatim>\<open>str\<close> is a \<^typ>\<open>string\<close> holding its UTF-8 bytes;
  \<^item> the string tags of \<^verbatim>\<open>status\<close> and \<^verbatim>\<open>category\<close> are constructors;
  \<^item> an exception is a value \<open>Inl e\<close> of \<open>error + 'a\<close>;
  \<^item> the clock reading \<^verbatim>\<open>datetime.now().isoformat()\<close> is an argument \<open>now\<close>.
\<close>

subsection \<open>Python operations used by the program\<close>

datatype error = ZeroDivisionError | KeyError string

definition bind_err :: "error + 'a \<Rightarrow> ('a \<Rightarrow> error + 'b) \<Rightarrow> error + 'b" where
  "bind_err m f = (case m of Inl e \<Rightarrow> Inl e | Inr v \<Rightarrow> f v)"

text \<open>\<^verbatim>\<open>a / b\<close> on floats raises \<^verbatim>\<open>ZeroDivisionError\<close> when \<^verbatim>\<open>b == 0\<close>.\<close>

definition truediv :: "real \<Rightarrow> real \<Rightarrow> error + real" where
  "truediv a b = (if b = 0 then Inl ZeroDivisionError else Inr (a / b))"

text \<open>\<^verbatim>\<open>d[k]\<close> on a dict raises \<^verbatim>\<open>KeyError\<close> when the key is missing.\<close>

definition getitem :: "(string \<rightharpoonup> int) \<Rightarrow> string \<Rightarrow> error + int" where
  "getitem d k = (case d k of None \<Rightarrow> Inl (KeyError k) | Some v \<Rightarrow> Inr v)"

definition digit_char :: "nat \<Rightarrow> char" where
  "digit_char d = ''0123456789'' ! d"

fun nat_str :: "nat \<Rightarrow> string" where
  "nat_str n = (if n < 10 then [digit_char n] else nat_str (n div 10) @ [digit_char (n mod 10)])"

declare nat_str.simps [simp del]

definition int_str :: "int \<Rightarrow> string" where
  "int_str i = (if i < 0 then ''-'' else []) @ nat_str (nat \<bar>i\<bar>)"

text \<open>Rounding to the nearest integer, a tie going to the even neighbour.\<close>

definition round_half_even :: "real \<Rightarrow> int" where
  "round_half_even x =
     (let f = \<lfloor>x\<rfloor>; d = x - of_int f
      in if d < 1 / 2 then f else if 1 / 2 < d then f + 1 else if even f then f else f + 1)"

text \<open>
  \<^verbatim>\<open>f"{x:.1f}"\<close>: fixed-point notation with one digit after the point, the sign kept
  when a negative value rounds to zero.
\<close>

definition format_1f :: "real \<Rightarrow> string" where
  "format_1f x =
     (let t = nat (round_half_even (\<bar>x\<bar> * 10))
      in (if x < 0 then ''-'' else []) @ nat_str (t div 10) @ ''.'' @ [digit_char (t mod 10)])"

text \<open>
  \<^verbatim>\<open>f"{x}"\<close> on a float is \<^verbatim>\<open>str(x)\<close>: an integral value below \<open>10\<^sup>1\<^sup>6\<close> in magnitude
  prints as its integer followed by \<^verbatim>\<open>.0\<close>. For every other value Python prints the
  shortest decimal that reads back as the same float, which depends on the binary
  representation; that part is the argument \<open>repr\<close>.
\<close>

definition float_str :: "(real \<Rightarrow> string) \<Rightarrow> real \<Rightarrow> string" where
  "float_str repr x =
     (if x = of_int \<lfloor>x\<rfloor> \<and> \<bar>x\<bar> < 10 ^ 16 then int_str \<lfloor>x\<rfloor> @ ''.0'' else repr x)"

text \<open>The two characters of the messages outside ASCII, in UTF-8.\<close>

definition sub2 :: string where
  "sub2 = [CHR 0xE2, CHR 0x82, CHR 0x82]"

definition ge_sign :: string where
  "ge_sign = [CHR 0xE2, CHR 0x89, CHR 0xA5]"

subsection \<open>Result of the analysis\<close>

datatype status = PASS | FAIL

datatype category = SAFE | WARNING | CRITICAL

record metrics =
  fio2 :: real
  total_flow :: real

record analysis_result =
  status :: status
  category :: category
  metrics :: metrics
  alerts :: "string list"
  warnings :: "string list"
  timestamp :: string


subsection \<open>Technical gas safety logic: \<^verbatim>\<open>analyze_gas_mixer\<close>\<close>

text \<open>The local variables that the three checks update.\<close>

record locals =
  l_category :: category
  l_final_status :: status
  l_alerts :: "string list"
  l_warnings :: "string list"

definition hypoxic_alert :: "real \<Rightarrow> string" where
  "hypoxic_alert fio2_percent =
     ''Hypoxic mixture detected: FiO'' @ sub2 @ '' = '' @ format_1f fio2_percent @ ''% (< 25%).''"

definition low_flow_warning :: string where
  "low_flow_warning = ''Low fresh gas flow (< 0.5 L/min). Risk of CO'' @ sub2 @ '' rebreathing.''"

definition high_agent_warning :: "(real \<Rightarrow> string) \<Rightarrow> real \<Rightarrow> string" where
  "high_agent_warning repr agent_perc =
     ''High anesthetic concentration ('' @ float_str repr agent_perc @ ''%).''"

text \<open>Lines 39-44: the hypoxic mixture check.\<close>

definition hypoxic_check :: "real \<Rightarrow> locals \<Rightarrow> locals" where
  "hypoxic_check fio2_percent s =
     (if fio2_percent < 25.0
      then s\<lparr>l_category := CRITICAL, l_final_status := FAIL,
             l_alerts := l_alerts s @ [hypoxic_alert fio2_percent]\<rparr>
      else s)"

text \<open>Lines 47-52: the low flow check.\<close>

definition low_flow_check :: "real \<Rightarrow> locals \<Rightarrow> locals" where
  "low_flow_check tflow s =
     (if tflow < 0.5
      then s\<lparr>l_category := (if l_category s \<noteq> CRITICAL then WARNING else l_category s),
             l_warnings := l_warnings s @ [low_flow_warning]\<rparr>
      else s)"

text \<open>Lines 55-60: the high agent concentration check.\<close>

definition high_agent_check :: "(real \<Rightarrow> string) \<Rightarrow> real \<Rightarrow> locals \<Rightarrow> locals" where
  "high_agent_check repr agent_perc s =
     (if agent_perc > 8.0
      then s\<lparr>l_category := (if l_category s \<noteq> CRITICAL then WARNING else l_category s),
             l_warnings := l_warnings s @ [high_agent_warning repr agent_perc]\<rparr>
      else s)"

text \<open>Lines 17-20: the initial values of the local variables.\<close>

definition init_locals :: locals where
  "init_locals = \<lparr>l_category = SAFE, l_final_status = PASS, l_alerts = [], l_warnings = []\<rparr>"

definition analyze_gas_mixer ::
  "(real \<Rightarrow> string) \<Rightarrow> string \<Rightarrow> real \<Rightarrow> real \<Rightarrow> real \<Rightarrow> real \<Rightarrow> error + analysis_result" where
  "analyze_gas_mixer repr now flow_o2 flow_n2o flow_air agent_perc =
     (let s0 = init_locals;
          tflow = flow_o2 + flow_n2o + flow_air
      in if tflow = 0
         then Inr \<lparr>status = FAIL, category = CRITICAL,
                   metrics = \<lparr>fio2 = 0, total_flow = 0\<rparr>,
                   alerts = [''CRITICAL: No fresh gas flow detected.''],
                   warnings = [], timestamp = now\<rparr>
         else
           let oxygen_volume = flow_o2 + flow_air * 0.21
           in bind_err (truediv oxygen_volume tflow) (\<lambda>q.
                let fio2_percent = q * 100;
                    s1 = hypoxic_check fio2_percent s0;
                    s2 = low_flow_check tflow s1;
                    s3 = high_agent_check repr agent_perc s2
                in Inr \<lparr>status = l_final_status s3, category = l_category s3,
                          metrics = \<lparr>fio2 = fio2_percent, total_flow = tflow\<rparr>,
                          alerts = l_alerts s3, warnings = l_warnings s3,
                          timestamp = now\<rparr>))"

subsection \<open>Patient-specific logic: \<^verbatim>\<open>clinical_adjustment\<close>\<close>

definition fio2_recommendation :: "(real \<Rightarrow> string) \<Rightarrow> real \<Rightarrow> string" where
  "fio2_recommendation repr recommended_fio2 =
     ''Patient-specific FiO'' @ sub2 @ '' recommendation: '' @ ge_sign @ '' ''
       @ float_str repr recommended_fio2 @ ''%.''"

definition agent_sensitivity_warning :: string where
  "agent_sensitivity_warning =
     ''Elderly / low-weight patient may be sensitive to high anesthetic dose.''"

definition low_compliance_warning :: string where
  "low_compliance_warning = ''Low lung compliance. Monitor airway pressure closely.''"

text \<open>
  Lines 87-93: the recommended minimum. \<^verbatim>\<open>or\<close> evaluates its right operand, and so the
  second \<^verbatim>\<open>patient["age"]\<close>, only when the left one is false.
\<close>

definition recommended_fio2 :: "(string \<rightharpoonup> int) \<Rightarrow> error + real" where
  "recommended_fio2 patient =
     bind_err (getitem patient ''age'') (\<lambda>a1.
     bind_err (if a1 < 1 then Inr True
               else bind_err (getitem patient ''age'') (\<lambda>a2. Inr (a2 > 65))) (\<lambda>c1.
     let r1 = (if c1 then 30.0 else 25.0)
     in bind_err (getitem patient ''asa'') (\<lambda>asa.
        Inr (if asa \<ge> 3 then 30.0 else r1))))"

text \<open>
  Line 101: \<^verbatim>\<open>(patient["age"] > 65 or patient["weight"] < 50) and agent_perc > 6.0\<close>;
  the weight is read only when the age is at most 65.
\<close>

definition agent_sensitive :: "real \<Rightarrow> (string \<rightharpoonup> int) \<Rightarrow> error + bool" where
  "agent_sensitive agent_perc patient =
     bind_err (getitem patient ''age'') (\<lambda>a.
     bind_err (if a > 65 then Inr True
               else bind_err (getitem patient ''weight'') (\<lambda>w. Inr (w < 50))) (\<lambda>c.
     Inr (c \<and> agent_perc > 6.0)))"

definition clinical_adjustment ::
  "(real \<Rightarrow> string) \<Rightarrow> real \<Rightarrow> real \<Rightarrow> (string \<rightharpoonup> int) \<Rightarrow> error + string list" where
  "clinical_adjustment repr fio2_in agent_perc patient =
     (let w0 = []
      in bind_err (recommended_fio2 patient) (\<lambda>rec.
         let w1 = (if fio2_in < rec then w0 @ [fio2_recommendation repr rec] else w0)
         in bind_err (agent_sensitive agent_perc patient) (\<lambda>sens.
            let w2 = (if sens then w1 @ [agent_sensitivity_warning] else w1)
            in bind_err (getitem patient ''compliance'') (\<lambda>c.
               let w3 = (if c < 30 then w2 @ [low_compliance_warning] else w2)
               in Inr w3))))"

subsection \<open>The analysis step of \<^verbatim>\<open>main\<close>\<close>

text \<open>Lines 145-150: the patient dict built from the four widget values.\<close>

definition patient_dict :: "int \<Rightarrow> int \<Rightarrow> int \<Rightarrow> int \<Rightarrow> (string \<rightharpoonup> int)" where
  "patient_dict age weight compliance asa =
     [''age'' \<mapsto> age, ''weight'' \<mapsto> weight, ''compliance'' \<mapsto> compliance, ''asa'' \<mapsto> asa]"

text \<open>Line 163: \<^verbatim>\<open>result["warnings"].extend(clinical_warnings)\<close>.\<close>

definition extend_warnings :: "analysis_result \<Rightarrow> string list \<Rightarrow> analysis_result" where
  "extend_warnings result clinical_warnings =
     result\<lparr>warnings := warnings result @ clinical_warnings\<rparr>"

text \<open>Lines 155-163: analyze, adjust with the analyzer's FiO2, merge.\<close>

definition main_analysis ::
  "(real \<Rightarrow> string) \<Rightarrow> string \<Rightarrow> real \<Rightarrow> real \<Rightarrow> real \<Rightarrow> real \<Rightarrow> (string \<rightharpoonup> int)
     \<Rightarrow> error + analysis_result" where
  "main_analysis repr now flow_o2 flow_n2o flow_air agent patient =
     bind_err (analyze_gas_mixer repr now flow_o2 flow_n2o flow_air agent) (\<lambda>result.
     bind_err (clinical_adjustment repr (fio2 (metrics result)) agent patient) (\<lambda>clinical_warnings.
     Inr (extend_warnings result clinical_warnings)))"

section \<open>Closed forms\<close>

subsection \<open>The analyzer\<close>

text \<open>
  The early exit of lines 25-33.
\<close>

lemma analyze_gas_mixer_zero:
  assumes "flow_o2 + flow_n2o + flow_air = 0"
  shows "analyze_gas_mixer repr now flow_o2 flow_n2o flow_air agent_perc =
           Inr \<lparr>status = FAIL, category = CRITICAL,
                 metrics = \<lparr>fio2 = 0, total_flow = 0\<rparr>,
                 alerts = [''CRITICAL: No fresh gas flow detected.''],
                 warnings = [], timestamp = now\<rparr>"
  using assms by (simp add: analyze_gas_mixer_def)

text \<open>
  Past the early exit the division is defined, and the three checks determine the result
  from the FiO2, the total flow and the agent concentration.
\<close>

lemma analyze_gas_mixer_nonzero:
  assumes "flow_o2 + flow_n2o + flow_air \<noteq> 0"
  shows "analyze_gas_mixer repr now flow_o2 flow_n2o flow_air agent_perc =
           Inr (let tflow = flow_o2 + flow_n2o + flow_air;
                    f = (flow_o2 + flow_air * 0.21) / tflow * 100
                in \<lparr>status = (if f < 25 then FAIL else PASS),
                    category = (if f < 25 then CRITICAL
                                else if tflow < 0.5 \<or> agent_perc > 8 then WARNING else SAFE),
                    metrics = \<lparr>fio2 = f, total_flow = tflow\<rparr>,
                    alerts = (if f < 25 then [hypoxic_alert f] else []),
                    warnings = (if tflow < 0.5 then [low_flow_warning] else [])
                               @ (if agent_perc > 8 then [high_agent_warning repr agent_perc] else []),
                    timestamp = now\<rparr>)"
  using assms
  by (simp add: analyze_gas_mixer_def Let_def bind_err_def truediv_def init_locals_def
      hypoxic_check_def low_flow_check_def high_agent_check_def)

subsection \<open>Number formatting\<close>


lemma digit_char_in_digits: "d < 10 \<Longrightarrow> digit_char d \<in> set ''0123456789''"
  unfolding digit_char_def by (rule nth_mem) simp

lemma nat_str_digits: "set (nat_str n) \<subseteq> set ''0123456789''"
proof (induction n rule: nat_str.induct)
  case (1 n)
  show ?case
  proof (cases "n < 10")
    case True
    then show ?thesis
      using digit_char_in_digits [of n] by (subst nat_str.simps) simp
  next
    case False
    have "n mod 10 < 10" by simp
    then have "digit_char (n mod 10) \<in> set ''0123456789''" by (rule digit_char_in_digits)
    with False "1.IH" show ?thesis
      by (subst nat_str.simps) simp
  qed
qed


text \<open>
  The two values the recommended minimum takes print with one decimal.
\<close>

lemma float_str_25_30:
  "float_str repr 25 = ''25.0''" "float_str repr 30 = ''30.0''"
  by (simp_all add: float_str_def int_str_def nat_str.simps digit_char_def)

lemma fio2_recommendation_text:
  "fio2_recommendation repr 25 =
     ''Patient-specific FiO'' @ sub2 @ '' recommendation: '' @ ge_sign @ '' 25.0%.''"
  "fio2_recommendation repr 30 =
     ''Patient-specific FiO'' @ sub2 @ '' recommendation: '' @ ge_sign @ '' 30.0%.''"
  by (simp_all add: fio2_recommendation_def float_str_25_30)

subsection \<open>The clinical adjustment on the dict \<^verbatim>\<open>main\<close> builds\<close>

lemma getitem_patient_dict:
  "getitem (patient_dict age weight compliance asa) ''age'' = Inr age"
  "getitem (patient_dict age weight compliance asa) ''weight'' = Inr weight"
  "getitem (patient_dict age weight compliance asa) ''compliance'' = Inr compliance"
  "getitem (patient_dict age weight compliance asa) ''asa'' = Inr asa"
  by (simp_all add: getitem_def patient_dict_def)

lemma recommended_fio2_patient_dict:
  "recommended_fio2 (patient_dict age weight compliance asa) =
     Inr (if age < 1 \<or> age > 65 \<or> asa \<ge> 3 then 30 else 25)"
  by (simp add: recommended_fio2_def getitem_patient_dict bind_err_def)

lemma agent_sensitive_patient_dict:
  "agent_sensitive agent_perc (patient_dict age weight compliance asa) =
     Inr ((age > 65 \<or> weight < 50) \<and> agent_perc > 6)"
  by (simp add: agent_sensitive_def getitem_patient_dict bind_err_def)

lemma clinical_adjustment_patient_dict:
  "clinical_adjustment repr fio2_in agent_perc (patient_dict age weight compliance asa) =
     Inr (let rec = (if age < 1 \<or> age > 65 \<or> asa \<ge> 3 then 30 else 25)
          in (if fio2_in < rec then [fio2_recommendation repr rec] else [])
             @ (if (age > 65 \<or> weight < 50) \<and> agent_perc > 6
                then [agent_sensitivity_warning] else [])
             @ (if compliance < 30 then [low_compliance_warning] else []))"
  by (simp add: clinical_adjustment_def recommended_fio2_patient_dict
      agent_sensitive_patient_dict getitem_patient_dict bind_err_def Let_def)

text \<open>
  The three kinds of warning are different strings.
\<close>

lemma clinical_warnings_distinct:
  "fio2_recommendation repr x \<noteq> agent_sensitivity_warning"
  "fio2_recommendation repr x \<noteq> low_compliance_warning"
  "agent_sensitivity_warning \<noteq> low_compliance_warning"
  by (simp_all add: fio2_recommendation_def agent_sensitivity_warning_def
      low_compliance_warning_def)

text \<open>
  A dict without the key \<^verbatim>\<open>"age"\<close> makes the first lookup raise; \<^verbatim>\<open>main\<close> never
  builds one.
\<close>

lemma clinical_adjustment_missing_key:
  "clinical_adjustment repr fio2_in agent_perc Map.empty = Inl (KeyError ''age'')"
  by (simp add: clinical_adjustment_def recommended_fio2_def getitem_def bind_err_def)

section \<open>The claims\<close>

text \<open>
  Where a concrete call needs the argument \<open>repr\<close>, it is \<open>format_1f\<close>: the
  sliders of \<^verbatim>\<open>main\<close> move in steps of 0.1, and for such values both print the same
  digits. The clock reading is an ISO date.
\<close>

subsection \<open>C1: no fresh gas flow\<close>

text \<open>
  C1. Whenever the three flows add up to zero, the analyzer returns FAIL and CRITICAL,
  both metrics zero, the single alert "CRITICAL: No fresh gas flow detected." and no
  warning, whatever the agent concentration is. The result is a value, not the
  \<open>ZeroDivisionError\<close> the FiO2 formula would raise: the branch returns before
  the division.
\<close>

theorem analyze_no_flow:
  assumes "flow_o2 + flow_n2o + flow_air = 0"
  shows "analyze_gas_mixer repr now flow_o2 flow_n2o flow_air agent_perc =
           Inr \<lparr>status = FAIL, category = CRITICAL,
                 metrics = \<lparr>fio2 = 0, total_flow = 0\<rparr>,
                 alerts = [''CRITICAL: No fresh gas flow detected.''],
                 warnings = [], timestamp = now\<rparr>"
  using assms by (rule analyze_gas_mixer_zero)

text \<open>
  The spec's scenario 2: every flow and the agent at zero.
\<close>

theorem analyze_no_flow_witness:
  "(0::real) + 0 + 0 = 0 \<and>
   analyze_gas_mixer format_1f ''2026-01-01T00:00:00'' 0 0 0 0 =
     Inr \<lparr>status = FAIL, category = CRITICAL,
           metrics = \<lparr>fio2 = 0, total_flow = 0\<rparr>,
           alerts = [''CRITICAL: No fresh gas flow detected.''],
           warnings = [], timestamp = ''2026-01-01T00:00:00''\<rparr>"
  using analyze_no_flow [of 0 0 0 format_1f "''2026-01-01T00:00:00''" 0] by simp

subsection \<open>C2: the FiO2 formula and its range\<close>




subsection \<open>C3: the hypoxic mixture check\<close>



subsection \<open>C4: the category only escalates\<close>



subsection \<open>C5: the patient-specific FiO2 floor\<close>

text \<open>
  C5. For every patient the recommended minimum is 30.0 when the age is below 1 or above
  65, 30.0 as well when the ASA class is at least 3, and 25.0 otherwise, never anything
  else. The recommendation warning is among the warnings exactly when the FiO2 is below
  that minimum, and it prints the minimum as \<open>25.0\<close> or \<open>30.0\<close>.
\<close>

theorem adjust_fio2_floor:
  "\<exists>rec ws.
     recommended_fio2 (patient_dict age weight compliance asa) = Inr rec \<and>
     rec = (if age < 1 \<or> age > 65 then 30.0 else if asa \<ge> 3 then 30.0 else 25.0) \<and>
     (rec = 25.0 \<or> rec = 30.0) \<and>
     clinical_adjustment repr fio2_in agent_perc (patient_dict age weight compliance asa) = Inr ws \<and>
     (fio2_recommendation repr rec \<in> set ws \<longleftrightarrow> fio2_in < rec) \<and>
     fio2_recommendation repr rec =
       ''Patient-specific FiO'' @ sub2 @ '' recommendation: '' @ ge_sign @ '' ''
         @ (if rec = 30.0 then ''30.0'' else ''25.0'') @ ''%.''"
  by (simp add: recommended_fio2_patient_dict clinical_adjustment_patient_dict Let_def
      clinical_warnings_distinct fio2_recommendation_text)

text \<open>
  The spec's scenario 5: a patient of 70 at 28 percent is told at least 30.0 percent.
\<close>

theorem adjust_fio2_floor_witness:
  "\<exists>ws. recommended_fio2 (patient_dict 70 45 25 2) = Inr 30 \<and>
     clinical_adjustment format_1f 28 2 (patient_dict 70 45 25 2) = Inr ws \<and>
     (''Patient-specific FiO'' @ sub2 @ '' recommendation: '' @ ge_sign @ '' 30.0%.'') \<in> set ws"
  using adjust_fio2_floor [of 70 45 25 2 format_1f 28 2]
  by (auto simp: recommended_fio2_patient_dict)

subsection \<open>C6: the order of the clinical warnings\<close>

text \<open>
  C6. The warnings are the FiO2 floor warning, the agent sensitivity warning and the low
  compliance warning, in this order, each at most once. The agent sensitivity warning is
  there exactly when the age is above 65 or the weight below 50, and the agent above 6.0;
  the low compliance warning exactly when the compliance is below 30.
\<close>

theorem adjust_warning_order:
  "\<exists>rec ws.
     recommended_fio2 (patient_dict age weight compliance asa) = Inr rec \<and>
     clinical_adjustment repr fio2_in agent_perc (patient_dict age weight compliance asa) = Inr ws \<and>
     ws = (if fio2_in < rec then [fio2_recommendation repr rec] else [])
          @ (if (age > 65 \<or> weight < 50) \<and> agent_perc > 6.0
             then [agent_sensitivity_warning] else [])
          @ (if compliance < 30 then [low_compliance_warning] else []) \<and>
     (agent_sensitivity_warning \<in> set ws \<longleftrightarrow> (age > 65 \<or> weight < 50) \<and> agent_perc > 6.0) \<and>
     (low_compliance_warning \<in> set ws \<longleftrightarrow> compliance < 30) \<and>
     distinct ws \<and> length ws \<le> 3"
  by (auto simp: recommended_fio2_patient_dict clinical_adjustment_patient_dict Let_def
      clinical_warnings_distinct clinical_warnings_distinct [symmetric])

text \<open>
  The spec's scenario 6: all three warnings, in the fixed order.
\<close>

theorem adjust_warning_order_witness:
  "clinical_adjustment format_1f 20 7 (patient_dict 70 45 20 3) =
     Inr [''Patient-specific FiO'' @ sub2 @ '' recommendation: '' @ ge_sign @ '' 30.0%.'',
          agent_sensitivity_warning, low_compliance_warning]"
  using adjust_warning_order [of 70 45 20 3 format_1f 20 7]
  by (auto simp: fio2_recommendation_text recommended_fio2_patient_dict)

subsection \<open>C7: the clinical adjustment only adds warnings\<close>

text \<open>
  C7. The clinical adjustment returns a list of warnings, each one of its own warning
  texts, and nothing else. Merging a list of warnings into a result leaves the status, the
  category, the metrics and the alerts as they were; so the result \<^verbatim>\<open>main\<close> displays
  has the analyzer's status, category, metrics and alerts, and the analyzer's warnings
  followed by the clinical ones.
\<close>

theorem adjust_only_warnings:
  "(\<exists>cw. clinical_adjustment repr fio2_in agent_perc (patient_dict age weight compliance asa)
            = Inr cw \<and>
          set cw \<subseteq> {fio2_recommendation repr 25.0, fio2_recommendation repr 30.0,
                     agent_sensitivity_warning, low_compliance_warning}) \<and>
   status (extend_warnings result ws) = status result \<and>
   category (extend_warnings result ws) = category result \<and>
   metrics (extend_warnings result ws) = metrics result \<and>
   alerts (extend_warnings result ws) = alerts result \<and>
   (\<exists>r cw r'.
      analyze_gas_mixer repr now flow_o2 flow_n2o flow_air agent = Inr r \<and>
      clinical_adjustment repr (fio2 (metrics r)) agent (patient_dict age weight compliance asa)
        = Inr cw \<and>
      main_analysis repr now flow_o2 flow_n2o flow_air agent
        (patient_dict age weight compliance asa) = Inr r' \<and>
      status r' = status r \<and> category r' = category r \<and> metrics r' = metrics r \<and>
      alerts r' = alerts r \<and> timestamp r' = timestamp r \<and>
      warnings r' = warnings r @ cw)"
proof -
  have only: "\<exists>cw. clinical_adjustment repr fio2_in agent_perc
        (patient_dict age weight compliance asa) = Inr cw \<and>
      set cw \<subseteq> {fio2_recommendation repr 25.0, fio2_recommendation repr 30.0,
                 agent_sensitivity_warning, low_compliance_warning}"
    by (auto simp: clinical_adjustment_patient_dict Let_def)
  have frame: "status (extend_warnings result ws) = status result \<and>
      category (extend_warnings result ws) = category result \<and>
      metrics (extend_warnings result ws) = metrics result \<and>
      alerts (extend_warnings result ws) = alerts result"
    by (simp add: extend_warnings_def)
  obtain r where r: "analyze_gas_mixer repr now flow_o2 flow_n2o flow_air agent = Inr r"
    using analyze_gas_mixer_zero [of flow_o2 flow_n2o flow_air repr now agent]
      analyze_gas_mixer_nonzero [of flow_o2 flow_n2o flow_air repr now agent]
    by (cases "flow_o2 + flow_n2o + flow_air = 0") simp_all
  obtain cw where cw: "clinical_adjustment repr (fio2 (metrics r)) agent
      (patient_dict age weight compliance asa) = Inr cw"
    by (simp add: clinical_adjustment_patient_dict)
  have "main_analysis repr now flow_o2 flow_n2o flow_air agent
      (patient_dict age weight compliance asa) = Inr (extend_warnings r cw)"
    by (simp add: main_analysis_def r cw bind_err_def)
  with r cw have merged: "\<exists>r cw r'.
      analyze_gas_mixer repr now flow_o2 flow_n2o flow_air agent = Inr r \<and>
      clinical_adjustment repr (fio2 (metrics r)) agent (patient_dict age weight compliance asa)
        = Inr cw \<and>
      main_analysis repr now flow_o2 flow_n2o flow_air agent
        (patient_dict age weight compliance asa) = Inr r' \<and>
      status r' = status r \<and> category r' = category r \<and> metrics r' = metrics r \<and>
      alerts r' = alerts r \<and> timestamp r' = timestamp r \<and>
      warnings r' = warnings r @ cw"
    by (simp add: extend_warnings_def)
  from only frame merged show ?thesis by blast
qed

text \<open>
  A patient of 70 with 2 L/min of oxygen and the agent at 9 percent: the analyzer's
  WARNING and PASS stand, and the two clinical warnings follow the analyzer's.
\<close>

theorem adjust_only_warnings_witness:
  "\<exists>r'. main_analysis format_1f ''2026-01-01T00:00:00'' 2 0 0 9 (patient_dict 70 45 25 2)
          = Inr r' \<and>
        status r' = PASS \<and> category r' = WARNING \<and>
        metrics r' = \<lparr>fio2 = 100, total_flow = 2\<rparr> \<and> alerts r' = [] \<and>
        warnings r' = [high_agent_warning format_1f 9, agent_sensitivity_warning,
                       low_compliance_warning]"
proof -
  have a: "analyze_gas_mixer format_1f ''2026-01-01T00:00:00'' 2 0 0 9 =
      Inr \<lparr>status = PASS, category = WARNING, metrics = \<lparr>fio2 = 100, total_flow = 2\<rparr>,
            alerts = [], warnings = [high_agent_warning format_1f 9],
            timestamp = ''2026-01-01T00:00:00''\<rparr>"
    by (simp add: analyze_gas_mixer_nonzero Let_def)
  have c: "clinical_adjustment format_1f 100 9 (patient_dict 70 45 25 2) =
      Inr [agent_sensitivity_warning, low_compliance_warning]"
    by (simp add: clinical_adjustment_patient_dict)
  from adjust_only_warnings [of format_1f 100 9 70 45 25 2 _ "[]"
      "''2026-01-01T00:00:00''" 2 0 0 9]
  show ?thesis by (auto simp: a c)
qed

subsection \<open>C8: the same inputs give the same result\<close>

text \<open>
  C8. Two calls of the analyzer with the same flows and agent concentration, made at
  different clock readings, return results that agree on the status, the category, the
  metrics, the alerts and the warnings; only the timestamps are those of the two calls.
\<close>

theorem analyze_deterministic:
  "\<exists>r1 r2.
     analyze_gas_mixer repr now1 flow_o2 flow_n2o flow_air agent_perc = Inr r1 \<and>
     analyze_gas_mixer repr now2 flow_o2 flow_n2o flow_air agent_perc = Inr r2 \<and>
     status r1 = status r2 \<and> category r1 = category r2 \<and> metrics r1 = metrics r2 \<and>
     alerts r1 = alerts r2 \<and> warnings r1 = warnings r2 \<and>
     timestamp r1 = now1 \<and> timestamp r2 = now2"
proof (cases "flow_o2 + flow_n2o + flow_air = 0")
  case True
  then show ?thesis by (simp add: analyze_gas_mixer_zero)
next
  case False
  then show ?thesis by (simp add: analyze_gas_mixer_nonzero Let_def)
qed

text \<open>
  The spec's scenario 3, one second apart.
\<close>

theorem analyze_deterministic_witness:
  "\<exists>r1 r2.
     analyze_gas_mixer format_1f ''2026-01-01T00:00:00'' 0.3 2 0 2 = Inr r1 \<and>
     analyze_gas_mixer format_1f ''2026-01-01T00:00:01'' 0.3 2 0 2 = Inr r2 \<and>
     status r1 = status r2 \<and> category r1 = category r2 \<and> metrics r1 = metrics r2 \<and>
     alerts r1 = alerts r2 \<and> warnings r1 = warnings r2 \<and>
     timestamp r1 = ''2026-01-01T00:00:00'' \<and> timestamp r2 = ''2026-01-01T00:00:01''"
  by (rule analyze_deterministic)

subsection \<open>C9: no input raises\<close>

text \<open>
  C9. For all flows and every agent concentration the analyzer returns a result, and for
  every patient the clinical adjustment returns a list of warnings: neither raises. When
  the flows add up to zero, the division of the FiO2 formula would raise
  \<open>ZeroDivisionError\<close>; the analyzer returns FAIL and CRITICAL instead. Both
  functions are total: the only recursion is that of \<open>nat_str\<close>, which
  terminates.
\<close>

theorem analyze_adjust_total:
  "(\<exists>r. analyze_gas_mixer repr now flow_o2 flow_n2o flow_air agent_perc = Inr r) \<and>
   (\<exists>ws. clinical_adjustment repr fio2_in agent_perc (patient_dict age weight compliance asa)
           = Inr ws) \<and>
   (flow_o2 + flow_n2o + flow_air = 0 \<longrightarrow>
      truediv (flow_o2 + flow_air * 0.21) (flow_o2 + flow_n2o + flow_air)
        = Inl ZeroDivisionError \<and>
      (\<exists>r. analyze_gas_mixer repr now flow_o2 flow_n2o flow_air agent_perc = Inr r \<and>
           status r = FAIL \<and> category r = CRITICAL))"
proof -
  have a: "\<exists>r. analyze_gas_mixer repr now flow_o2 flow_n2o flow_air agent_perc = Inr r"
    by (cases "flow_o2 + flow_n2o + flow_air = 0")
      (simp_all add: analyze_gas_mixer_zero analyze_gas_mixer_nonzero)
  have c: "\<exists>ws. clinical_adjustment repr fio2_in agent_perc
      (patient_dict age weight compliance asa) = Inr ws"
    by (simp add: clinical_adjustment_patient_dict)
  have z: "flow_o2 + flow_n2o + flow_air = 0 \<longrightarrow>
      truediv (flow_o2 + flow_air * 0.21) (flow_o2 + flow_n2o + flow_air)
        = Inl ZeroDivisionError \<and>
      (\<exists>r. analyze_gas_mixer repr now flow_o2 flow_n2o flow_air agent_perc = Inr r \<and>
           status r = FAIL \<and> category r = CRITICAL)"
    by (simp add: truediv_def analyze_gas_mixer_zero)
  from a c z show ?thesis by blast
qed

text \<open>
  The all-zero input, and the default patient of \<^verbatim>\<open>main\<close>.
\<close>

theorem analyze_adjust_total_witness:
  "(0::real) + 0 + 0 = 0 \<and>
   truediv (0 + 0 * 0.21) (0 + 0 + 0) = Inl ZeroDivisionError \<and>
   (\<exists>r. analyze_gas_mixer format_1f ''2026-01-01T00:00:00'' 0 0 0 0 = Inr r \<and>
        status r = FAIL \<and> category r = CRITICAL) \<and>
   (\<exists>ws. clinical_adjustment format_1f 0 0 (patient_dict 30 70 50 1) = Inr ws)"
  using analyze_adjust_total [of format_1f "''2026-01-01T00:00:00''" 0 0 0 0 0 30 70 50 1]
  by simp

subsection \<open>C10: status, category and alerts agree\<close>

text \<open>
  C10. In every result of the analyzer the status is FAIL exactly when the category is
  CRITICAL, the category is CRITICAL exactly when there is an alert, and there is at most
  one alert; so a SAFE or WARNING result has the status PASS and no alert.
\<close>

theorem analyze_status_category_alerts:
  "\<exists>r. analyze_gas_mixer repr now flow_o2 flow_n2o flow_air agent_perc = Inr r \<and>
     (status r = FAIL \<longleftrightarrow> category r = CRITICAL) \<and>
     (category r = CRITICAL \<longleftrightarrow> alerts r \<noteq> []) \<and>
     length (alerts r) \<le> 1 \<and>
     (category r = SAFE \<or> category r = WARNING \<longrightarrow> status r = PASS \<and> alerts r = [])"
proof (cases "flow_o2 + flow_n2o + flow_air = 0")
  case True
  then show ?thesis by (simp add: analyze_gas_mixer_zero)
next
  case False
  then show ?thesis by (simp add: analyze_gas_mixer_nonzero Let_def)
qed

text \<open>
  The spec's scenario 4: the agent at 9 percent gives WARNING, PASS and no alert.
\<close>

theorem analyze_status_category_alerts_witness:
  "\<exists>r. analyze_gas_mixer format_1f ''2026-01-01T00:00:00'' 2 0 0 9 = Inr r \<and>
     category r = WARNING \<and> status r = PASS \<and> alerts r = []"
proof -
  have "analyze_gas_mixer format_1f ''2026-01-01T00:00:00'' 2 0 0 9 =
      Inr \<lparr>status = PASS, category = WARNING, metrics = \<lparr>fio2 = 100, total_flow = 2\<rparr>,
            alerts = [], warnings = [high_agent_warning format_1f 9],
            timestamp = ''2026-01-01T00:00:00''\<rparr>"
    by (simp add: analyze_gas_mixer_nonzero Let_def)
  with analyze_status_category_alerts [of format_1f "''2026-01-01T00:00:00''" 2 0 0 9]
  show ?thesis by simp
qed

end
